theory Spec2Isabelle
  imports Main "HOL-Library.Word"
begin

section \<open>Data model\<close>

text \<open>
  The arbitrary-precision \<^verbatim>\<open>biginteger\<close> of the source is \<open>int\<close>; a \<^verbatim>\<open>byte\<close> is an
  8-bit word; a C++ \<^verbatim>\<open>int\<close> is a 32-bit word read with \<open>sint\<close>.
\<close>

type_synonym biginteger = int
type_synonym byte = "8 word"
type_synonym cint = "32 word"

text \<open>
  Exceptions are values. The first three are the exception classes thrown by the inline
  bodies of \<^verbatim>\<open>DamgardJurikEnc.hpp\<close>; the others are the error kinds of the
  specification's taxonomy, raised by the operations whose bodies are not in the header.
\<close>

datatype error =
    UnsupportedOperationException string
  | NotImplementedException string
  | runtime_error string
  | KeyTypeMismatch
  | KeyNotSet
  | RangeViolation
  | SizeMismatch
  | ParameterInvalid

text \<open>\<^verbatim>\<open>class DamgardJurikPublicKey\<close>: the single field \<^verbatim>\<open>modulus\<close>.\<close>

record DamgardJurikPublicKey =
  modulus :: biginteger

definition getModulus :: "DamgardJurikPublicKey \<Rightarrow> biginteger" where
  "getModulus k = modulus k"

text \<open>\<^verbatim>\<open>class DamgardJurikPrivateKey\<close>: the fields \<^verbatim>\<open>t\<close>, \<^verbatim>\<open>dForS1\<close>, \<^verbatim>\<open>p\<close>, \<^verbatim>\<open>q\<close>
  (the one-letter names carry the suffix \<open>_priv\<close>).\<close>

record DamgardJurikPrivateKey =
  t_priv :: biginteger
  dForS1 :: biginteger
  p_priv :: biginteger
  q_priv :: biginteger

definition getT :: "DamgardJurikPrivateKey \<Rightarrow> biginteger" where
  "getT k = t_priv k"

definition getDForS1 :: "DamgardJurikPrivateKey \<Rightarrow> biginteger" where
  "getDForS1 k = dForS1 k"

definition getP :: "DamgardJurikPrivateKey \<Rightarrow> biginteger" where
  "getP k = p_priv k"

definition getQ :: "DamgardJurikPrivateKey \<Rightarrow> biginteger" where
  "getQ k = q_priv k"

text \<open>
  \<^verbatim>\<open>vector<byte> getEncoded() override { throw NotImplementedException(""); }\<close>
  of the private key: the body is a single throw.
\<close>

definition getEncoded_private :: "DamgardJurikPrivateKey \<Rightarrow> error + byte list" where
  "getEncoded_private k = Inl (NotImplementedException [])"

text \<open>
  The dynamic type of a key handed to the scheme through the base-class pointers
  \<^verbatim>\<open>shared_ptr<PublicKey>\<close> and \<^verbatim>\<open>shared_ptr<PrivateKey>\<close>.
\<close>

datatype PublicKey = DJPublicKey DamgardJurikPublicKey | OtherPublicKey
datatype PrivateKey = DJPrivateKey DamgardJurikPrivateKey | OtherPrivateKey

text \<open>
  \<^verbatim>\<open>class DamgardJurikEnc\<close>. A \<^verbatim>\<open>shared_ptr\<close> field is \<open>None\<close> when null. The
  generator \<^verbatim>\<open>mt19937 random\<close> is the stream of the values it will produce. The member
  initialiser of the source is \<^verbatim>\<open>int consts = -1;\<close>; the field is
  \<open>consts_s\<close> here, \<open>consts\<close> being a keyword.
\<close>

record DamgardJurikEnc =
  publicKey :: "DamgardJurikPublicKey option"
  privateKey :: "DamgardJurikPrivateKey option"
  random :: "nat \<Rightarrow> biginteger"
  keySet :: bool
  consts_s :: cint

text \<open>
  \<^verbatim>\<open>DamgardJurikEnc() { random = get_seeded_random(); }\<close>. The two smart pointers are
  default-constructed (null), \<^verbatim>\<open>consts\<close> takes its member initialiser, and \<^verbatim>\<open>keySet\<close>
  has no initialiser: its indeterminate value is the argument \<open>ks\<close>.
\<close>

definition DamgardJurikEnc_ctor :: "(nat \<Rightarrow> biginteger) \<Rightarrow> bool \<Rightarrow> DamgardJurikEnc" where
  "DamgardJurikEnc_ctor get_seeded_random ks =
     \<lparr>publicKey = None, privateKey = None, random = get_seeded_random,
      keySet = ks, consts_s = - 1\<rparr>"

definition isKeySet :: "DamgardJurikEnc \<Rightarrow> bool" where
  "isKeySet sch = keySet sch"

text \<open>\<^verbatim>\<open>void setLengthParameter(int s) { this->consts = s; }\<close>\<close>

definition setLengthParameter :: "cint \<Rightarrow> DamgardJurikEnc \<Rightarrow> DamgardJurikEnc" where
  "setLengthParameter s sch = sch\<lparr>consts_s := s\<rparr>"

text \<open>
  \<^verbatim>\<open>generateKey()\<close> without parameters:
  \<^verbatim>\<open>throw UnsupportedOperationException("Use generateKey function with DJKeyGenParameterSpec");\<close>
\<close>

definition generateKey_noparams :: "DamgardJurikEnc \<Rightarrow> error + (PublicKey \<times> PrivateKey)" where
  "generateKey_noparams sch =
     Inl (UnsupportedOperationException ''Use generateKey function with DJKeyGenParameterSpec'')"

text \<open>
  \<^verbatim>\<open>int getMaxLengthOfByteArrayForPlaintext()\<close> throws a \<^verbatim>\<open>runtime_error\<close>;
  \<^verbatim>\<open>hasMaxByteArrayLengthForPlaintext()\<close> returns false.
\<close>

definition hasMaxByteArrayLengthForPlaintext :: "DamgardJurikEnc \<Rightarrow> bool" where
  "hasMaxByteArrayLengthForPlaintext sch = False"

definition getMaxLengthOfByteArrayForPlaintext :: "DamgardJurikEnc \<Rightarrow> error + cint" where
  "getMaxLengthOfByteArrayForPlaintext sch =
     Inl (runtime_error ''DamgardJurik encryption can get any plaintext length'')"


text \<open>A source of randomness that always produces the same value.\<close>

definition constant_source :: "biginteger \<Rightarrow> nat \<Rightarrow> biginteger" where
  "constant_source r i = r"

subsection \<open>Ownership of the sendable data\<close>

text \<open>
  Objects of class \<^verbatim>\<open>DamgardJurikPublicKey\<close> live in a store, by address. A
  \<^verbatim>\<open>shared_ptr\<close> is the raw pointer it holds together with its control block; a control
  block records the address it manages and its use count.
\<close>

type_synonym addr = nat

record shared_ptr =
  get_ptr :: addr
  ctrl :: nat

record heap =
  keys :: "addr \<rightharpoonup> DamgardJurikPublicKey"
  ctrl_blocks :: "nat \<rightharpoonup> addr \<times> nat"
  next_ctrl :: nat

text \<open>
  The constructor \<^verbatim>\<open>shared_ptr<T>(T* raw)\<close>: a new control block, with use count 1,
  that manages the raw pointer.
\<close>

definition shared_ptr_from_raw :: "addr \<Rightarrow> heap \<Rightarrow> shared_ptr \<times> heap" where
  "shared_ptr_from_raw raw h =
     (\<lparr>get_ptr = raw, ctrl = next_ctrl h\<rparr>,
      h\<lparr>ctrl_blocks := (ctrl_blocks h)(next_ctrl h \<mapsto> (raw, 1)),
        next_ctrl := Suc (next_ctrl h)\<rparr>)"

text \<open>
  \<^verbatim>\<open>shared_ptr<KeySendableData> generateSendableData() { return shared_ptr<KeySendableData>(this); }\<close>
\<close>

definition generateSendableData :: "addr \<Rightarrow> heap \<Rightarrow> shared_ptr \<times> heap" where
  "generateSendableData this h = shared_ptr_from_raw this h"

text \<open>
  A store with one public key, of modulus 35, at address 1, owned through control block 0.
\<close>

definition one_key_heap :: heap where
  "one_key_heap =
     \<lparr>keys = [1 \<mapsto> \<lparr>modulus = 35\<rparr>], ctrl_blocks = [0 \<mapsto> (1, 1)], next_ctrl = 1\<rparr>"

subsection \<open>The codec of big integers\<close>

text \<open>
  Modelled from the spec: \<^verbatim>\<open>bytesCount\<close>, \<^verbatim>\<open>encodeBigInteger\<close> and
  \<^verbatim>\<open>decodeBigInteger\<close> are called by the header and defined elsewhere. Section 4.2:
  the encoding is the minimal-length big-endian byte sequence of the magnitude, the
  encoding of zero is a single zero byte, and decoding is the inverse.
\<close>

function bytesCount :: "biginteger \<Rightarrow> nat" where
  "bytesCount x = (if \<bar>x\<bar> < 256 then 1 else Suc (bytesCount (\<bar>x\<bar> div 256)))"
  by pat_completeness auto
termination
  by (relation "measure (\<lambda>x. nat \<bar>x\<bar>)") auto

declare bytesCount.simps [simp del]

fun encodeBigInteger :: "biginteger \<Rightarrow> nat \<Rightarrow> byte list" where
  "encodeBigInteger x 0 = []"
| "encodeBigInteger x (Suc len) =
     encodeBigInteger (\<bar>x\<bar> div 256) len @ [word_of_int (\<bar>x\<bar> mod 256)]"

definition decodeBigInteger :: "byte list \<Rightarrow> nat \<Rightarrow> biginteger" where
  "decodeBigInteger input len = foldl (\<lambda>acc b. acc * 256 + uint b) 0 (take len input)"

text \<open>
  Modelled from the spec: \<^verbatim>\<open>copy_byte_array_to_byte_vector(src, src_len, target, beginIndex)\<close>
  is defined elsewhere; it appends the bytes of the array from \<open>beginIndex\<close> up to
  \<open>src_len\<close> to the vector (section 6: the export is the encoding of the modulus).
\<close>

definition copy_byte_array_to_byte_vector ::
    "byte list \<Rightarrow> nat \<Rightarrow> byte list \<Rightarrow> nat \<Rightarrow> byte list" where
  "copy_byte_array_to_byte_vector src src_len target beginIndex =
     target @ drop beginIndex (take src_len src)"

text \<open>
  \<^verbatim>\<open>DamgardJurikPublicKey::getEncoded\<close>: count the bytes, encode the modulus into an
  array of that size, copy the array into a fresh vector.
\<close>

definition getEncoded :: "DamgardJurikPublicKey \<Rightarrow> byte list" where
  "getEncoded k =
     (let size = bytesCount (modulus k);
          num = encodeBigInteger (modulus k) size;
          out = copy_byte_array_to_byte_vector num size [] 0
      in out)"

text \<open>The two directions of the codec, as section 4.2 names them.\<close>

definition encode :: "biginteger \<Rightarrow> byte list" where
  "encode x = encodeBigInteger x (bytesCount x)"

definition decode :: "byte list \<Rightarrow> biginteger" where
  "decode bytes = decodeBigInteger bytes (length bytes)"

text \<open>A plaintext and a ciphertext hold one big integer each.\<close>

datatype Plaintext = BigIntegerPlainText (getX: biginteger)
datatype AsymmetricCiphertext = BigIntegerCiphertext (getCipher: biginteger)

text \<open>
  \<^verbatim>\<open>generatePlaintext(vector<byte> text)\<close>:
  \<^verbatim>\<open>make_shared<BigIntegerPlainText>(decodeBigInteger(text.data(), text.size()))\<close>.
\<close>

definition generatePlaintext :: "byte list \<Rightarrow> Plaintext" where
  "generatePlaintext text = BigIntegerPlainText (decodeBigInteger text (length text))"

subsection \<open>Big-integer arithmetic\<close>

text \<open>
  Modelled from the spec: the arbitrary-precision integer library is external to the
  repository (section 2). Its modular exponentiation is computed by squaring, its modular
  inverse by the extended Euclidean algorithm.
\<close>

function powm :: "biginteger \<Rightarrow> nat \<Rightarrow> biginteger \<Rightarrow> biginteger" where
  "powm b e m =
     (if e = 0 then 1 mod m
      else if even e then powm (b * b mod m) (e div 2) m
      else b * powm (b * b mod m) (e div 2) m mod m)"
  by pat_completeness auto
termination
  by (relation "measure (\<lambda>(b, e, m). e)") auto

declare powm.simps [simp del]

function egcd :: "biginteger \<Rightarrow> biginteger \<Rightarrow> biginteger \<times> biginteger \<times> biginteger" where
  "egcd a b =
     (if b = 0 then (a, 1, 0)
      else (case egcd b (a mod b) of (g, u, v) \<Rightarrow> (g, v, u - (a div b) * v)))"
  by pat_completeness auto
termination
  by (relation "measure (\<lambda>(a, b). nat \<bar>b\<bar>)") (auto simp: abs_mod_less)

declare egcd.simps [simp del]

definition modInverse :: "biginteger \<Rightarrow> biginteger \<Rightarrow> biginteger" where
  "modInverse a m = (case egcd a m of (g, u, v) \<Rightarrow> u mod m)"

text \<open>
  Modelled from the spec: the primality test of key generation is defined elsewhere.
  Section 4.1 has it certify primes; the model decides primality by trial division.
\<close>

definition is_prime :: "biginteger \<Rightarrow> bool" where
  "is_prime k \<longleftrightarrow> 2 \<le> k \<and> list_all (\<lambda>d. \<not> d dvd k) [2..k - 1]"

subsection \<open>Key generation\<close>

text \<open>
  Modelled from the spec: \<^verbatim>\<open>generateD\<close>, the constructor of the private key and
  \<^verbatim>\<open>generateKey(keyParams)\<close> are declared in the header and defined elsewhere.
  Sections 3 and 4.1: \<open>n = p * q\<close>, \<open>t = lcm (p - 1) (q - 1)\<close>, and \<open>d\<close> is the residue
  modulo \<open>N * t\<close> with \<open>d mod N = 1\<close> and \<open>d mod t = 0\<close>, built by the Chinese Remainder
  Theorem. The sampling of the two primes is the random source's: its outcome is the
  argument of the constructor.
\<close>

definition generateD :: "biginteger \<Rightarrow> biginteger \<Rightarrow> biginteger" where
  "generateD N tt = tt * modInverse tt N"

record RSAModulus =
  rsa_p :: biginteger
  rsa_q :: biginteger
  rsa_n :: biginteger

definition RSAModulus_ctor :: "biginteger \<Rightarrow> biginteger \<Rightarrow> RSAModulus" where
  "RSAModulus_ctor pp qq = \<lparr>rsa_p = pp, rsa_q = qq, rsa_n = pp * qq\<rparr>"

definition DamgardJurikPrivateKey_ctor :: "RSAModulus \<Rightarrow> DamgardJurikPrivateKey" where
  "DamgardJurikPrivateKey_ctor rsaMod =
     (let tt = lcm (rsa_p rsaMod - 1) (rsa_q rsaMod - 1)
      in \<lparr>t_priv = tt, dForS1 = generateD (rsa_n rsaMod) tt,
          p_priv = rsa_p rsaMod, q_priv = rsa_q rsaMod\<rparr>)"

definition DamgardJurikPublicKey_ctor :: "biginteger \<Rightarrow> DamgardJurikPublicKey" where
  "DamgardJurikPublicKey_ctor n = \<lparr>modulus = n\<rparr>"

text \<open>
  Modelled from the spec: \<^verbatim>\<open>generateKey(keyParams)\<close> for a modulus of \<open>len\<close> bits, given
  the two sampled candidates. It fails when the candidates are not two distinct odd
  primes of \<open>len div 2\<close> bits each (section 4.1), and returns the key pair otherwise.
\<close>

definition has_bit_length :: "nat \<Rightarrow> biginteger \<Rightarrow> bool" where
  "has_bit_length l k \<longleftrightarrow> 2 ^ (l - 1) \<le> k \<and> k < 2 ^ l"

definition generateKey ::
    "nat \<Rightarrow> biginteger \<Rightarrow> biginteger \<Rightarrow> error + (PublicKey \<times> PrivateKey)" where
  "generateKey len pp qq =
     (if is_prime pp \<and> is_prime qq \<and> odd pp \<and> odd qq \<and> pp \<noteq> qq
         \<and> has_bit_length (len div 2) pp \<and> has_bit_length (len div 2) qq
      then Inr (DJPublicKey (DamgardJurikPublicKey_ctor (rsa_n (RSAModulus_ctor pp qq))),
                DJPrivateKey (DamgardJurikPrivateKey_ctor (RSAModulus_ctor pp qq)))
      else Inl ParameterInvalid)"

subsection \<open>Key lifecycle\<close>

text \<open>
  Modelled from the spec: the two-argument \<^verbatim>\<open>setKey\<close> is declared in the header and
  defined elsewhere. Section 4.3: it binds a public key, and a private key when one is
  given, marks the key as set, and fails with a key-type error when a supplied key is not
  of this scheme's kind. A failed call leaves the scheme unchanged (section 7).
\<close>

definition setKey2 ::
    "PublicKey \<Rightarrow> PrivateKey option \<Rightarrow> DamgardJurikEnc \<Rightarrow> error + DamgardJurikEnc" where
  "setKey2 pub priv sch =
     (case pub of
        OtherPublicKey \<Rightarrow> Inl KeyTypeMismatch
      | DJPublicKey pk \<Rightarrow>
          (case priv of
             None \<Rightarrow> Inr (sch\<lparr>publicKey := Some pk, keySet := True\<rparr>)
           | Some OtherPrivateKey \<Rightarrow> Inl KeyTypeMismatch
           | Some (DJPrivateKey sk) \<Rightarrow>
               Inr (sch\<lparr>publicKey := Some pk, privateKey := Some sk, keySet := True\<rparr>)))"

text \<open>
  \<^verbatim>\<open>void setKey(shared_ptr<PublicKey> publicKey) override { setKey(publicKey, NULL); }\<close>
\<close>

definition setKey :: "PublicKey \<Rightarrow> DamgardJurikEnc \<Rightarrow> error + DamgardJurikEnc" where
  "setKey pub sch = setKey2 pub None sch"

subsection \<open>The length parameter in use\<close>

text \<open>
  Modelled from the spec: section 3 has the length parameter chosen minimal such that the
  target fits, unless explicitly overridden. The member \<^verbatim>\<open>consts\<close> holds the override
  and \<open>-1\<close> when there is none. The least \<open>s \<ge> s0\<close> with \<open>bound < n ^ s\<close>:
\<close>

function leastLength :: "biginteger \<Rightarrow> biginteger \<Rightarrow> nat \<Rightarrow> nat" where
  "leastLength n bound s =
     (if n \<le> 1 \<or> bound < n ^ s then s else leastLength n bound (Suc s))"
  by pat_completeness auto
termination
proof (relation "measure (\<lambda>(n, bound, s). nat (bound + 1 - n ^ s))", goal_cases)
  case 1
  show ?case by simp
next
  case (2 n bound s)
  then have "2 \<le> n" and "n ^ s \<le> bound" by auto
  then have "0 < n ^ s" by simp
  with \<open>2 \<le> n\<close> have "n ^ s < n * n ^ s" by simp
  with \<open>n ^ s \<le> bound\<close> show ?case by simp
qed

declare leastLength.simps [simp del]

text \<open>
  Modelled from the spec: for a plaintext, the least \<open>s \<ge> 1\<close> whose plaintext space
  \<open>n ^ s\<close> holds it; for a ciphertext, whose \<open>s\<close> is implicit (section 3), the least
  \<open>s \<ge> 1\<close> whose ciphertext space \<open>n ^ (s + 1)\<close> holds it; the override when there is one.
\<close>

definition plaintextLength :: "DamgardJurikEnc \<Rightarrow> biginteger \<Rightarrow> biginteger \<Rightarrow> nat" where
  "plaintextLength sch n m =
     (if consts_s sch = - 1 then leastLength n m 1 else nat (sint (consts_s sch)))"

definition ciphertextLength :: "DamgardJurikEnc \<Rightarrow> biginteger \<Rightarrow> biginteger \<Rightarrow> nat" where
  "ciphertextLength sch n c =
     (if consts_s sch = - 1 then leastLength n c 2 - 1 else nat (sint (consts_s sch)))"

subsection \<open>Encryption\<close>

text \<open>
  Modelled from the spec: both \<^verbatim>\<open>encrypt\<close> functions are declared in the header and
  defined elsewhere. Section 4.4: a state error when no public key is bound, a range
  error unless \<open>0 \<le> m < n ^ s\<close>, and otherwise
  \<open>c = (1 + n) ^ m * r ^ (n ^ s) mod n ^ (s + 1)\<close>.
\<close>

definition encrypt_r ::
    "DamgardJurikEnc \<Rightarrow> Plaintext \<Rightarrow> biginteger \<Rightarrow> error + AsymmetricCiphertext" where
  "encrypt_r sch plaintext r =
     (case publicKey sch of
        None \<Rightarrow> Inl KeyNotSet
      | Some pub \<Rightarrow>
          (let n = modulus pub; m = getX plaintext; s = plaintextLength sch n m;
               Ntag = n ^ (s + 1)
           in if m < 0 \<or> n ^ s \<le> m then Inl RangeViolation
              else Inr (BigIntegerCiphertext
                     (powm (1 + n) (nat m) Ntag * powm r (nat (n ^ s)) Ntag mod Ntag))))"

text \<open>
  Modelled from the spec: without an explicit \<open>r\<close>, the random value is the next one of
  the scheme's source, which then moves on (section 4.4); a failed call leaves the scheme
  unchanged (section 7).
\<close>

definition encrypt ::
    "DamgardJurikEnc \<Rightarrow> Plaintext \<Rightarrow> (error + AsymmetricCiphertext) \<times> DamgardJurikEnc" where
  "encrypt sch plaintext =
     (case encrypt_r sch plaintext (random sch 0) of
        Inl e \<Rightarrow> (Inl e, sch)
      | Inr c \<Rightarrow> (Inr c, sch\<lparr>random := (\<lambda>i. random sch (Suc i))\<rparr>))"

subsection \<open>Decryption\<close>

text \<open>
  Modelled from the spec: \<^verbatim>\<open>decrypt\<close> is declared in the header and defined elsewhere.
  Section 4.5, step 3, is the decoding recursion of Damgard and Jurik: for \<open>j\<close> from 1 to
  \<open>s\<close>, stage \<open>j\<close> takes \<open>L (a mod n ^ (j + 1))\<close> with \<open>L b = (b - 1) div n\<close> and
  subtracts, for \<open>k\<close> from 2 to \<open>j\<close>, the contribution
  \<open>x * (x - 1) * ... * (x - k + 1) * n ^ (k - 1) / k!\<close> of the value \<open>x\<close> recovered by the
  stage before, everything modulo \<open>n ^ j\<close>.
\<close>

definition L_fun :: "biginteger \<Rightarrow> biginteger \<Rightarrow> biginteger" where
  "L_fun n b = (b - 1) div n"

definition decode_inner ::
    "biginteger \<Rightarrow> nat \<Rightarrow> biginteger \<times> biginteger \<times> biginteger \<Rightarrow> nat
       \<Rightarrow> biginteger \<times> biginteger \<times> biginteger" where
  "decode_inner n j st k =
     (case st of (x, t2, t1) \<Rightarrow>
        (let x' = x - 1;
             t2' = t2 * x' mod n ^ j;
             t1' = (t1 - t2' * n ^ (k - 1) * modInverse (fact k) (n ^ j)) mod n ^ j
         in (x', t2', t1')))"

definition decode_stage :: "biginteger \<Rightarrow> biginteger \<Rightarrow> biginteger \<Rightarrow> nat \<Rightarrow> biginteger" where
  "decode_stage n a x j =
     (case foldl (decode_inner n j) (x, x, L_fun n (a mod n ^ (j + 1))) [2..<Suc j] of
        (x', t2, t1) \<Rightarrow> t1)"

definition decode_exponent :: "biginteger \<Rightarrow> nat \<Rightarrow> biginteger \<Rightarrow> biginteger" where
  "decode_exponent n s a = foldl (decode_stage n a) 0 [1..<Suc s]"

text \<open>
  Modelled from the spec: section 4.5 has a key-missing error when no private key is
  bound; a range error when the ciphertext is not a unit modulo \<open>n ^ (s + 1)\<close>; the
  exponent is \<open>dForS1\<close> for \<open>s = 1\<close> and the one built for \<open>n ^ s\<close> and \<open>t\<close> otherwise;
  then \<open>a = c ^ d mod n ^ (s + 1)\<close> and the decoding recursion.
\<close>

definition decrypt :: "DamgardJurikEnc \<Rightarrow> AsymmetricCiphertext \<Rightarrow> error + Plaintext" where
  "decrypt sch cipher =
     (case privateKey sch of
        None \<Rightarrow> Inl KeyNotSet
      | Some priv \<Rightarrow>
          (case publicKey sch of
             None \<Rightarrow> Inl KeyNotSet
           | Some pub \<Rightarrow>
               (let n = modulus pub; c = getCipher cipher; s = ciphertextLength sch n c;
                    Ntag = n ^ (s + 1)
                in if c < 0 \<or> Ntag \<le> c \<or> gcd c n \<noteq> 1 then Inl RangeViolation
                   else (let d = (if s = 1 then dForS1 priv else generateD (n ^ s) (t_priv priv));
                             a = powm c (nat d) Ntag
                         in Inr (BigIntegerPlainText (decode_exponent n s a))))))"

subsection \<open>Homomorphic addition\<close>

text \<open>
  Modelled from the spec: both \<^verbatim>\<open>add\<close> functions are declared in the header and
  defined elsewhere. Section 4.6: a state error when no public key is bound, a size
  mismatch when the two ciphertexts do not share the same \<open>s\<close>, a range error on an
  operand that is not a unit modulo \<open>n ^ (s + 1)\<close>, and otherwise
  \<open>c3 = c1 * c2 * r ^ (n ^ s) mod n ^ (s + 1)\<close>.
\<close>

definition add_r ::
    "DamgardJurikEnc \<Rightarrow> AsymmetricCiphertext \<Rightarrow> AsymmetricCiphertext \<Rightarrow> biginteger
       \<Rightarrow> error + AsymmetricCiphertext" where
  "add_r sch cipher1 cipher2 r =
     (case publicKey sch of
        None \<Rightarrow> Inl KeyNotSet
      | Some pub \<Rightarrow>
          (let n = modulus pub; c1 = getCipher cipher1; c2 = getCipher cipher2;
               s = ciphertextLength sch n c1; Ntag = n ^ (s + 1)
           in if ciphertextLength sch n c2 \<noteq> s then Inl SizeMismatch
              else if c1 < 0 \<or> Ntag \<le> c1 \<or> gcd c1 n \<noteq> 1
                      \<or> c2 < 0 \<or> Ntag \<le> c2 \<or> gcd c2 n \<noteq> 1 then Inl RangeViolation
              else Inr (BigIntegerCiphertext
                     (c1 * c2 mod Ntag * powm r (nat (n ^ s)) Ntag mod Ntag))))"

definition add ::
    "DamgardJurikEnc \<Rightarrow> AsymmetricCiphertext \<Rightarrow> AsymmetricCiphertext
       \<Rightarrow> (error + AsymmetricCiphertext) \<times> DamgardJurikEnc" where
  "add sch cipher1 cipher2 =
     (case add_r sch cipher1 cipher2 (random sch 0) of
        Inl e \<Rightarrow> (Inl e, sch)
      | Inr c \<Rightarrow> (Inr c, sch\<lparr>random := (\<lambda>i. random sch (Suc i))\<rparr>))"

subsection \<open>The GMW circuit\<close>

text \<open>\<^verbatim>\<open>struct Gate\<close> and \<^verbatim>\<open>class Circuit\<close> of \<^verbatim>\<open>Circuit.h\<close>, field by field.\<close>

record Gate =
  inputIndex1 :: cint
  inputIndex2 :: cint
  outputIndex :: cint
  gateType :: cint

record Circuit =
  gates :: "Gate list"
  partiesInputs :: "cint list list"
  partiesOutputs :: "cint list list"
  numberOfParties :: cint
  nrOfAndGates :: cint
  nrOfXorGates :: cint
  nrOfInput :: cint
  nrOfOutput :: cint

definition getNrOfParties :: "Circuit \<Rightarrow> cint" where
  "getNrOfParties c = numberOfParties c"

definition getNrOfAndGates :: "Circuit \<Rightarrow> cint" where
  "getNrOfAndGates c = nrOfAndGates c"

definition getNrOfXorGates :: "Circuit \<Rightarrow> cint" where
  "getNrOfXorGates c = nrOfXorGates c"

definition getNrOfInput :: "Circuit \<Rightarrow> cint" where
  "getNrOfInput c = nrOfInput c"

definition getNrOfOutput :: "Circuit \<Rightarrow> cint" where
  "getNrOfOutput c = nrOfOutput c"

text \<open>\<^verbatim>\<open>int getNrOfGates() { return (nrOfAndGates + nrOfXorGates); }\<close>\<close>

definition getNrOfGates :: "Circuit \<Rightarrow> cint" where
  "getNrOfGates c = nrOfAndGates c + nrOfXorGates c"

subsection \<open>Falling factorials\<close>


subsection \<open>Small instances\<close>

text \<open>A circuit with three AND gates and four XOR gates.\<close>

definition small_circuit :: Circuit where
  "small_circuit =
     \<lparr>gates = [], partiesInputs = [], partiesOutputs = [], numberOfParties = 2,
      nrOfAndGates = 3, nrOfXorGates = 4, nrOfInput = 2, nrOfOutput = 1\<rparr>"

text \<open>A freshly constructed scheme, and the same with only the public key 35 bound.\<close>

definition fresh_scheme :: DamgardJurikEnc where
  "fresh_scheme = DamgardJurikEnc_ctor (constant_source 2) False"

definition public_only_scheme :: DamgardJurikEnc where
  "public_only_scheme =
     \<lparr>publicKey = Some \<lparr>modulus = 35\<rparr>, privateKey = None, random = constant_source 2,
      keySet = True, consts_s = - 1\<rparr>"


section \<open>Theorems\<close>

text \<open>
  C6. Calling \<^verbatim>\<open>generateKey()\<close> with no parameters fails with the unsupported-operation
  exception, whatever the state of the scheme, and so never returns a key pair.
\<close>

theorem generateKey_noparams_unsupported:
  "generateKey_noparams sch =
     Inl (UnsupportedOperationException ''Use generateKey function with DJKeyGenParameterSpec'')
   \<and> (\<nexists>kp. generateKey_noparams sch = Inr kp)"
  by (simp add: generateKey_noparams_def)

text \<open>
  C7. For every private key, \<^verbatim>\<open>getEncoded\<close> fails with an exception and never returns a
  byte encoding.
\<close>

theorem getEncoded_private_fails:
  "(\<exists>e. getEncoded_private k = Inl e) \<and> (\<nexists>bs. getEncoded_private k = Inr bs)"
  by (simp add: getEncoded_private_def)

text \<open>
  C10. \<^verbatim>\<open>getNrOfGates()\<close> is the sum of the AND-gate and XOR-gate counts, as the C++
  expression on \<^verbatim>\<open>int\<close> and, when that sum is in the range of \<^verbatim>\<open>int\<close>, as a sum of
  integers; the gate list and the counts of input and output gates play no part in it.
\<close>

theorem getNrOfGates_sum:
  "getNrOfGates c = getNrOfAndGates c + getNrOfXorGates c
   \<and> getNrOfGates (c\<lparr>gates := g, nrOfInput := i, nrOfOutput := o'\<rparr>) = getNrOfGates c
   \<and> (- (2 ^ 31) \<le> sint (getNrOfAndGates c) + sint (getNrOfXorGates c)
        \<and> sint (getNrOfAndGates c) + sint (getNrOfXorGates c) < 2 ^ 31
      \<longrightarrow> sint (getNrOfGates c) = sint (getNrOfAndGates c) + sint (getNrOfXorGates c))"
proof -
  have "sint (a + b) = sint a + sint b"
    if "- (2 ^ 31) \<le> sint a + sint b" "sint a + sint b < 2 ^ 31" for a b :: cint
    using that by (simp add: sint_word_ariths signed_take_bit_int_eq_self)
  then show ?thesis
    by (simp add: getNrOfGates_def getNrOfAndGates_def getNrOfXorGates_def)
qed

theorem getNrOfGates_sum_witness:
  "sint (getNrOfAndGates small_circuit) + sint (getNrOfXorGates small_circuit) = 7
   \<and> sint (getNrOfGates small_circuit) = 7 \<and> getNrOfGates small_circuit = 3 + 4"
  using getNrOfGates_sum [where c = small_circuit and g = "[]" and i = 0 and o' = 0]
  by (simp add: small_circuit_def getNrOfAndGates_def getNrOfXorGates_def)

text \<open>
  C4, as stated, fails: the length parameter stored in a freshly constructed scheme is
  \<open>-1\<close>, and \<^verbatim>\<open>setLengthParameter(0)\<close> stores 0.
\<close>

theorem length_parameter_counterexample:
  "\<not> 1 \<le> sint (consts_s fresh_scheme)
   \<and> \<not> 1 \<le> sint (consts_s (setLengthParameter 0 fresh_scheme))"
  by (simp add: fresh_scheme_def DamgardJurikEnc_ctor_def setLengthParameter_def)

text \<open>
  C4, amended. A freshly constructed scheme stores \<open>-1\<close> (no length parameter fixed), and
  \<^verbatim>\<open>setLengthParameter(s)\<close> stores the \<open>s\<close> it is given, unchecked, and changes nothing
  else; the stored value is at least 1 exactly when the caller's \<open>s\<close> is.
\<close>

theorem length_parameter_stored:
  "consts_s (DamgardJurikEnc_ctor rnd ks) = - 1
   \<and> setLengthParameter s sch = sch\<lparr>consts_s := s\<rparr>
   \<and> consts_s (setLengthParameter s sch) = s
   \<and> (1 \<le> sint (consts_s (setLengthParameter s sch))) = (1 \<le> sint s)"
  by (simp add: DamgardJurikEnc_ctor_def setLengthParameter_def)

text \<open>
  C3, as stated, fails: on the key at address 1, the handle returned by
  \<^verbatim>\<open>generateSendableData()\<close> holds address 1 itself, and the store still has that one
  key object only.
\<close>

theorem generateSendableData_alias_counterexample:
  "get_ptr (fst (generateSendableData 1 one_key_heap)) = 1
   \<and> keys (snd (generateSendableData 1 one_key_heap)) 1 = Some \<lparr>modulus = 35\<rparr>
   \<and> dom (keys (snd (generateSendableData 1 one_key_heap))) = {1}"
  by (simp add: generateSendableData_def shared_ptr_from_raw_def one_key_heap_def)

text \<open>
  C3, amended. The handle returned by \<^verbatim>\<open>generateSendableData()\<close> on a key points to
  that key itself; no key object is created or copied.
\<close>

theorem generateSendableData_returns_this:
  "get_ptr (fst (generateSendableData this h)) = this
   \<and> keys (snd (generateSendableData this h)) = keys h"
  by (simp add: generateSendableData_def shared_ptr_from_raw_def)

text \<open>
  C5. On a scheme without a private key, after \<^verbatim>\<open>setKey\<close> with a public key only,
  \<^verbatim>\<open>decrypt\<close> fails with the key-missing error on every ciphertext, and neither
  \<^verbatim>\<open>encrypt\<close> function fails with it.
\<close>

theorem decrypt_without_private_key:
  assumes "privateKey sch = None" and "setKey pub sch = Inr sch'"
  shows "decrypt sch' c = Inl KeyNotSet \<and> encrypt_r sch' m r \<noteq> Inl KeyNotSet
         \<and> fst (encrypt sch' m) \<noteq> Inl KeyNotSet"
proof -
  from assms obtain pk where sch': "sch' = sch\<lparr>publicKey := Some pk, keySet := True\<rparr>"
    by (cases pub) (auto simp: setKey_def setKey2_def)
  have 1: "decrypt sch' c = Inl KeyNotSet"
    using assms(1) by (simp add: sch' decrypt_def)
  have 2: "encrypt_r sch' m r \<noteq> Inl KeyNotSet" for r
    by (simp add: sch' encrypt_r_def Let_def)
  have 3: "fst (encrypt sch' m) \<noteq> Inl KeyNotSet"
    using 2 [of "random sch' 0"] by (auto simp: encrypt_def split: sum.splits)
  from 1 2 3 show ?thesis by simp
qed

theorem decrypt_without_private_key_witness:
  "privateKey fresh_scheme = None
   \<and> setKey (DJPublicKey \<lparr>modulus = 35\<rparr>) fresh_scheme = Inr public_only_scheme
   \<and> decrypt public_only_scheme (BigIntegerCiphertext 928) = Inl KeyNotSet
   \<and> encrypt_r public_only_scheme (BigIntegerPlainText 17) 2 \<noteq> Inl KeyNotSet"
proof -
  have a: "privateKey fresh_scheme = None"
    by (simp add: fresh_scheme_def DamgardJurikEnc_ctor_def)
  have b: "setKey (DJPublicKey \<lparr>modulus = 35\<rparr>) fresh_scheme = Inr public_only_scheme"
    by (simp add: fresh_scheme_def public_only_scheme_def DamgardJurikEnc_ctor_def
        setKey_def setKey2_def)
  from decrypt_without_private_key [OF a b] a b show ?thesis by simp
qed

subsection \<open>The codec\<close>

lemma length_encodeBigInteger: "length (encodeBigInteger x len) = len"
  by (induction len arbitrary: x) auto

lemma decode_bytes_encodeBigInteger:
  "foldl (\<lambda>acc b. acc * 256 + uint b) 0 (encodeBigInteger x len) = \<bar>x\<bar> mod 256 ^ len"
proof (induction len arbitrary: x)
  case 0
  show ?case by simp
next
  case (Suc len)
  have byte: "uint (word_of_int (\<bar>x\<bar> mod 256) :: byte) = \<bar>x\<bar> mod 256"
    by (simp add: uint_word_of_int)
  have "foldl (\<lambda>acc b. acc * 256 + uint b) 0 (encodeBigInteger x (Suc len))
      = (\<bar>x\<bar> div 256) mod 256 ^ len * 256 + \<bar>x\<bar> mod 256"
    using Suc.IH [of "\<bar>x\<bar> div 256"] by (simp add: byte)
  also have "\<dots> = \<bar>x\<bar> mod 256 ^ Suc len"
    by (simp add: zmod_zmult2_eq)
  finally show ?case .
qed

lemma bytesCount_bound: "\<bar>x\<bar> < 256 ^ bytesCount x"
proof (induction x rule: bytesCount.induct)
  case (1 x)
  show ?case
  proof (cases "\<bar>x\<bar> < 256")
    case True
    then show ?thesis by (simp add: bytesCount.simps [of x])
  next
    case False
    with 1 have "\<bar>\<bar>x\<bar> div 256\<bar> < 256 ^ bytesCount (\<bar>x\<bar> div 256)" by simp
    then have "\<bar>x\<bar> div 256 < 256 ^ bytesCount (\<bar>x\<bar> div 256)" by simp
    then have "\<bar>x\<bar> < 256 * 256 ^ bytesCount (\<bar>x\<bar> div 256)"
      by (simp add: div_less_iff_less_mult mult.commute)
    with False show ?thesis by (simp add: bytesCount.simps [of x])
  qed
qed

lemma decode_encode: "0 \<le> x \<Longrightarrow> decode (encode x) = x"
  using bytesCount_bound [of x]
  by (simp add: decode_def encode_def decodeBigInteger_def length_encodeBigInteger
      decode_bytes_encodeBigInteger)

lemma getEncoded_encode: "getEncoded k = encode (modulus k)"
  by (simp add: getEncoded_def encode_def copy_byte_array_to_byte_vector_def
      length_encodeBigInteger)

lemma generatePlaintext_decode: "generatePlaintext bytes = BigIntegerPlainText (decode bytes)"
  by (simp add: generatePlaintext_def decode_def)

text \<open>
  C8. Decoding the encoding of a non-negative big integer gives it back, also through
  the two functions of the header that use the codec (\<^verbatim>\<open>getEncoded\<close> of a public key
  with that modulus, then \<^verbatim>\<open>generatePlaintext\<close>); the encoding of zero is the single
  byte zero.
\<close>

theorem codec_round_trip:
  "(0 \<le> x \<longrightarrow> decode (encode x) = x
              \<and> getX (generatePlaintext (getEncoded \<lparr>modulus = x\<rparr>)) = x)
   \<and> encode 0 = [0]"
proof -
  have "encode 0 = [0]"
    by (simp add: encode_def bytesCount.simps [of 0])
  then show ?thesis
    by (simp add: decode_encode getEncoded_encode generatePlaintext_decode)
qed

theorem codec_round_trip_witness:
  "(0::int) \<le> 65535 \<and> encode 65535 = [255, 255] \<and> decode [255, 255] = 65535
   \<and> decode (encode 65535) = 65535"
proof -
  have e: "encode 65535 = [255, 255]" by code_simp
  have d: "decode [255, 255] = 65535" by (simp add: decode_def decodeBigInteger_def)
  from codec_round_trip [of 65535] e d show ?thesis by simp
qed

subsection \<open>Encryption with an explicit random value\<close>



section \<open>Correctness of encryption and decryption\<close>

subsection \<open>Modular exponentiation and inverse\<close>









subsection \<open>Primes and Fermat's little theorem\<close>








subsection \<open>Powers that are 1 modulo a power of the modulus\<close>









subsection \<open>Raising a ciphertext to the decryption exponent\<close>






subsection \<open>Binomial expansion of a power of 1 + n\<close>







subsection \<open>Falling factorials\<close>





subsection \<open>The decoding recursion\<close>






subsection \<open>Generated keys\<close>






subsection \<open>Decryption of a ciphertext of the scheme's form\<close>





subsection \<open>The form of the ciphertexts\<close>





subsection \<open>A generated key pair bound to a scheme\<close>











end
